theory Spec2Isabelle
  imports Complex_Main
begin

section \<open>Activity tracker (script.js): numbers and the platform\<close>

text \<open>
  The script keeps its session in the variables of one closure and changes them from
  three button handlers, a geolocation callback and a timer callback. The model is a
  record of those variables and one function per source function, each taking the
  state and returning the new one.

  Numbers. \<open>Date.now()\<close> returns a whole number of milliseconds: instants and
  durations are \<open>int\<close>. Latitudes, longitudes and distances are JavaScript doubles.
  The session model carries them as mathematical reals, so \<open>+\<close>, \<open>*\<close>, \<open>sin\<close>,
  \<open>cos\<close>, \<open>sqrt\<close> are exact there. That says what the script does with a coordinate
  and a distance (which is stored, which is added to which total) and what the formula
  is; it does not say which double the script computes. For that, section
  ``IEEE doubles'' transcribes \<open>calculateDistance\<close> and the accumulation again with
  every operation rounded to a double and with NaN, and the sections after it evaluate
  them at two points in range where the exact formula gives half the circumference
  and the script gives NaN. In exact arithmetic both radicands of \<open>calculateDistance\<close>
  lie in \<open>[0, 1]\<close> (lemma \<open>haversine_a_range\<close>), so HOL's total \<open>sqrt\<close> is never
  asked for the root of a negative number there.
\<close>

text \<open>\<open>Math.atan2(y, x)\<close> on reals: the angle of the point \<open>(x, y)\<close> in \<open>(-\<pi>, \<pi>]\<close>.\<close>

definition Math_atan2 :: "real \<Rightarrow> real \<Rightarrow> real" where
  "Math_atan2 y x =
     (if 0 < x then arctan (y / x)
      else if x < 0 then (if 0 \<le> y then arctan (y / x) + pi else arctan (y / x) - pi)
      else if 0 < y then pi / 2
      else if y < 0 then - (pi / 2)
      else 0)"

text \<open>
  The \<open>%\<close> operator on numbers: the remainder takes the sign of the dividend, the
  quotient being truncated towards zero.
\<close>

definition Math_trunc :: "real \<Rightarrow> int" where
  "Math_trunc r = (if r < 0 then \<lceil>r\<rceil> else \<lfloor>r\<rfloor>)"

definition js_rem :: "real \<Rightarrow> real \<Rightarrow> real" where
  "js_rem x y = x - y * of_int (Math_trunc (x / y))"

section \<open>Distance calculation\<close>

text \<open>
  \<open>calculateDistance(lat1, lon1, lat2, lon2)\<close>, lines 115 to 125: the haversine
  formula with \<open>R = 6371\<close>, in kilometres, in exact arithmetic. The same lines in
  doubles are \<open>calculateDistance_double\<close> below.
\<close>

definition calculateDistance :: "real \<Rightarrow> real \<Rightarrow> real \<Rightarrow> real \<Rightarrow> real" where
  "calculateDistance lat1 lon1 lat2 lon2 =
     (let R = 6371;
          dLat = (lat2 - lat1) * pi / 180;
          dLon = (lon2 - lon1) * pi / 180;
          a = sin (dLat / 2) * sin (dLat / 2) +
              cos (lat1 * pi / 180) * cos (lat2 * pi / 180) *
              sin (dLon / 2) * sin (dLon / 2);
          c = 2 * Math_atan2 (sqrt a) (sqrt (1 - a))
      in R * c)"

text \<open>The value of the local constant \<open>a\<close> of \<open>calculateDistance\<close>, named for the proofs.\<close>

definition haversine_a :: "real \<Rightarrow> real \<Rightarrow> real \<Rightarrow> real \<Rightarrow> real" where
  "haversine_a lat1 lon1 lat2 lon2 =
     sin ((lat2 - lat1) * pi / 180 / 2) * sin ((lat2 - lat1) * pi / 180 / 2) +
     cos (lat1 * pi / 180) * cos (lat2 * pi / 180) *
     sin ((lon2 - lon1) * pi / 180 / 2) * sin ((lon2 - lon1) * pi / 180 / 2)"

text \<open>
  A coordinate in range, as the specification's data model has it: latitude in
  \<open>[-90, 90]\<close>, longitude in \<open>[-180, 180]\<close>. The script itself never tests this.
\<close>

definition valid_coordinate :: "real \<Rightarrow> real \<Rightarrow> bool" where
  "valid_coordinate lat lon \<longleftrightarrow> - 90 \<le> lat \<and> lat \<le> 90 \<and> - 180 \<le> lon \<and> lon \<le> 180"

section \<open>Session state\<close>

text \<open>
  The text of \<open>durationElement\<close>: what the page's markup put there (the script has not
  written it yet), \<open>'-'\<close>, or \<open>hh:mm:ss\<close> kept as its three numbers (each is shown in
  decimal, padded to two digits).
\<close>

datatype duration_text = Markup | Dash | HMS int int int

text \<open>
  The closure's variables (lines 13 to 22), the parts of the page that the claims read
  (the duration text and the \<open>disabled\<close> flags of the three buttons), the messages
  shown by \<open>alert\<close> in order, and the platform: whether \<open>navigator.geolocation\<close>
  exists, and the next handles that \<open>watchPosition\<close> and \<open>setInterval\<close> give out
  (positive integers).

  Left out: \<open>map\<close> (assigned once by \<open>initMap\<close> during \<open>initialize\<close>, before any
  handler can run, and never cleared, so every \<open>if (map)\<close> is taken), the map view,
  the texts of the start-time, distance and pause-button elements, and \<open>console.log\<close>.
  \<open>polyline\<close> records whether the variable holds a layer.
\<close>

record session =
  polyline :: bool
  watchId :: "nat option"
  startTime :: "int option"
  timerInterval :: "nat option"
  pausedTime :: int
  totalPausedDuration :: int
  distance :: real
  coordinates :: "(real \<times> real) list"
  isPaused :: bool
  durationElement :: duration_text
  startBtn_disabled :: bool
  pauseBtn_disabled :: bool
  resetBtn_disabled :: bool
  alerts :: "string list"
  geolocation :: bool
  nextWatchId :: nat
  nextTimerId :: nat

text \<open>
  The state once \<open>initialize()\<close> has run (lines 262 to 275): the variables as declared,
  the pause and reset buttons disabled, the start button as a button is by default
  (enabled; the script does not set it here). The argument says whether the browser
  has geolocation.
\<close>

definition initial :: "bool \<Rightarrow> session" where
  "initial geo =
     \<lparr> polyline = False, watchId = None, startTime = None, timerInterval = None,
       pausedTime = 0, totalPausedDuration = 0, distance = 0, coordinates = [],
       isPaused = False, durationElement = Markup,
       startBtn_disabled = False, pauseBtn_disabled = True, resetBtn_disabled = True,
       alerts = [], geolocation = geo, nextWatchId = 1, nextTimerId = 1 \<rparr>"

section \<open>Geolocation and tracking\<close>

text \<open>\<open>onPositionUpdate(position)\<close>, lines 42 to 70. There is no test of the state.\<close>

definition onPositionUpdate :: "real \<times> real \<Rightarrow> session \<Rightarrow> session" where
  "onPositionUpdate newCoord s =
     (let s1 = s\<lparr>coordinates := coordinates s @ [newCoord], polyline := True\<rparr>
      in if length (coordinates s1) > 1
         then (let prevCoord = coordinates s1 ! (length (coordinates s1) - 2)
               in s1\<lparr>distance := distance s1 +
                    calculateDistance (fst prevCoord) (snd prevCoord)
                      (fst newCoord) (snd newCoord)\<rparr>)
         else s1)"

text \<open>\<open>startTracking()\<close>, lines 84 to 94, and \<open>stopTracking()\<close>, lines 99 to 104.\<close>

definition startTracking :: "session \<Rightarrow> session" where
  "startTracking s =
     (if geolocation s
      then s\<lparr>watchId := Some (nextWatchId s), nextWatchId := Suc (nextWatchId s)\<rparr>
      else s\<lparr>alerts := alerts s @ [''Geolocation is not supported by your browser.'']\<rparr>)"

definition stopTracking :: "session \<Rightarrow> session" where
  "stopTracking s = (if watchId s \<noteq> None then s\<lparr>watchId := None\<rparr> else s)"

section \<open>Timer and duration\<close>

text \<open>
  The three numbers the timer callback writes (lines 144 to 148) for an elapsed time
  in milliseconds.
\<close>

definition format_duration :: "int \<Rightarrow> duration_text" where
  "format_duration elapsedMilliseconds =
     (let seconds = \<lfloor>js_rem (real_of_int elapsedMilliseconds / 1000) 60\<rfloor>;
          minutes = \<lfloor>js_rem (real_of_int elapsedMilliseconds / (1000 * 60)) 60\<rfloor>;
          hours = \<lfloor>real_of_int elapsedMilliseconds / (1000 * 60 * 60)\<rfloor>
      in HMS hours minutes seconds)"

text \<open>
  The callback given to \<open>setInterval\<close>, lines 140 to 150, run at instant \<open>now\<close>.
  \<open>startTime\<close> is tested for truthiness: \<open>null\<close> and \<open>0\<close> both fail the test.
\<close>

definition timerCallback :: "int \<Rightarrow> session \<Rightarrow> session" where
  "timerCallback now s =
     (case startTime s of
        None \<Rightarrow> s
      | Some st \<Rightarrow>
          if st \<noteq> 0 \<and> \<not> isPaused s
          then (let elapsedMilliseconds = now - st - totalPausedDuration s
                in s\<lparr>durationElement := format_duration elapsedMilliseconds\<rparr>)
          else s)"

text \<open>
  \<open>startTimer()\<close>, lines 131 to 151, called at instant \<open>now\<close>. The old interval is
  cleared and a new one installed, so the interval in \<open>timerInterval\<close> is the only one
  running. \<open>stopTimer()\<close>, lines 156 to 159.
\<close>

definition startTimer :: "int \<Rightarrow> session \<Rightarrow> session" where
  "startTimer now s =
     (let s1 = (if isPaused s \<and> pausedTime s > 0
                then s\<lparr>totalPausedDuration := totalPausedDuration s + (now - pausedTime s),
                       pausedTime := 0\<rparr>
                else s)
      in s1\<lparr>timerInterval := Some (nextTimerId s1), nextTimerId := Suc (nextTimerId s1)\<rparr>)"

definition stopTimer :: "session \<Rightarrow> session" where
  "stopTimer s = s\<lparr>timerInterval := None\<rparr>"

section \<open>Button handlers\<close>

text \<open>\<open>handleStart()\<close>, lines 165 to 198, called at instant \<open>now\<close>.\<close>

definition handleStart :: "int \<Rightarrow> session \<Rightarrow> session" where
  "handleStart now s =
     (if watchId s \<noteq> None
      then s\<lparr>alerts := alerts s @ [''Activity already started. Pause or Reset first.'']\<rparr>
      else
        (let s1 = s\<lparr>startTime := Some now, totalPausedDuration := 0, pausedTime := 0,
                     isPaused := False, durationElement := HMS 0 0 0,
                     coordinates := [], distance := 0\<rparr>;
             s2 = s1\<lparr>polyline := False\<rparr>;
             s3 = startTracking s2;
             s4 = startTimer now s3
         in s4\<lparr>startBtn_disabled := True, pauseBtn_disabled := False,
                resetBtn_disabled := False\<rparr>))"

text \<open>\<open>handlePause()\<close>, lines 203 to 217, called at instant \<open>now\<close>: a toggle.\<close>

definition handlePause :: "int \<Rightarrow> session \<Rightarrow> session" where
  "handlePause now s =
     (let s1 = s\<lparr>isPaused := \<not> isPaused s\<rparr>
      in if isPaused s1
         then (stopTracking s1)\<lparr>pausedTime := now\<rparr>
         else startTimer now (startTracking s1))"

text \<open>\<open>handleReset()\<close>, lines 222 to 256.\<close>

definition handleReset :: "session \<Rightarrow> session" where
  "handleReset s =
     (let s1 = stopTimer (stopTracking s);
          s2 = s1\<lparr>startTime := None, pausedTime := 0, totalPausedDuration := 0,
                   distance := 0, coordinates := [], isPaused := False\<rparr>;
          s3 = s2\<lparr>polyline := False\<rparr>;
          s4 = s3\<lparr>durationElement := Dash\<rparr>
      in s4\<lparr>startBtn_disabled := False, pauseBtn_disabled := True,
             resetBtn_disabled := True\<rparr>)"

section \<open>Events\<close>

text \<open>
  What the browser does with the callbacks the script registers: a position reaches
  \<open>onPositionUpdate\<close> only while the watch made by \<open>watchPosition\<close> has not been
  cleared, the timer callback runs only while the interval is installed, and a click on
  a disabled button calls no handler.
\<close>

definition deliverPosition :: "real \<times> real \<Rightarrow> session \<Rightarrow> session" where
  "deliverPosition c s = (if watchId s \<noteq> None then onPositionUpdate c s else s)"

definition fireTimer :: "int \<Rightarrow> session \<Rightarrow> session" where
  "fireTimer now s = (if timerInterval s \<noteq> None then timerCallback now s else s)"

definition clickStart :: "int \<Rightarrow> session \<Rightarrow> session" where
  "clickStart now s = (if startBtn_disabled s then s else handleStart now s)"

definition clickPause :: "int \<Rightarrow> session \<Rightarrow> session" where
  "clickPause now s = (if pauseBtn_disabled s then s else handlePause now s)"

definition clickReset :: "session \<Rightarrow> session" where
  "clickReset s = (if resetBtn_disabled s then s else handleReset s)"

text \<open>
  A call of one of the script's functions, whatever the state: the runs below apply
  them in any order, which covers every order the browser can produce.
\<close>

datatype event =
    Start int
  | Pause int
  | Reset
  | Position real real
  | Timer int

fun handle :: "session \<Rightarrow> event \<Rightarrow> session" where
  "handle s (Start now) = handleStart now s"
| "handle s (Pause now) = handlePause now s"
| "handle s Reset = handleReset s"
| "handle s (Position lat lon) = onPositionUpdate (lat, lon) s"
| "handle s (Timer now) = timerCallback now s"

definition run :: "session \<Rightarrow> event list \<Rightarrow> session" where
  "run s es = foldl handle s es"

text \<open>
  The length of a path: the distances between consecutive points, added in the order
  of arrival starting from \<open>0\<close>, as the running total is.
\<close>

fun path_length_from :: "real \<Rightarrow> (real \<times> real) list \<Rightarrow> real" where
  "path_length_from acc (p # q # ps) =
     path_length_from (acc + calculateDistance (fst p) (snd p) (fst q) (snd q)) (q # ps)"
| "path_length_from acc ps = acc"

definition path_length :: "(real \<times> real) list \<Rightarrow> real" where
  "path_length ps = path_length_from 0 ps"

section \<open>Example states\<close>

text \<open>
  A session started at instant 1000 in a browser with geolocation, then paused at 11000,
  then resumed at 16000.
\<close>

definition tracking_example :: session where
  "tracking_example = handleStart 1000 (initial True)"

definition paused_example :: session where
  "paused_example = handlePause 11000 tracking_example"

definition resumed_example :: session where
  "resumed_example = handlePause 16000 paused_example"

text \<open>The running total agrees with the path: the invariant of the accumulator.\<close>

definition distance_matches_path :: "session \<Rightarrow> bool" where
  "distance_matches_path s \<longleftrightarrow> distance s = path_length (coordinates s)"

text \<open>
  A session that was started at 1000, saw the timer fire at 2004 and was paused at
  3005, one second and a few milliseconds after that tick.
\<close>

definition late_pause_example :: session where
  "late_pause_example = handlePause 3005 (timerCallback 2004 tracking_example)"

section \<open>The page: states and events\<close>

text \<open>
  The specification's states, read off the variables. \<open>startTime\<close> is \<open>null\<close> from
  \<open>initialize\<close> or \<open>handleReset\<close> until \<open>handleStart\<close> sets it: the session is idle.
  A started session is paused when \<open>isPaused\<close> is set and tracking otherwise. The script
  has no stop command, so the specification's fourth state has no counterpart.
\<close>

datatype session_state = Idle | Tracking | Paused

definition currentState :: "session \<Rightarrow> session_state" where
  "currentState s =
     (if startTime s = None then Idle else if isPaused s then Paused else Tracking)"

text \<open>
  What can happen to the page: a click on one of the three buttons, a position from the
  geolocation service, a tick of the timer, each passing through the browser as
  described above. A run of the page is a sequence of these from the initial state.
\<close>

datatype page_event =
    ClickStart int
  | ClickPause int
  | ClickReset
  | PositionArrives real real
  | TimerFires int

fun page_step :: "session \<Rightarrow> page_event \<Rightarrow> session" where
  "page_step s (ClickStart now) = clickStart now s"
| "page_step s (ClickPause now) = clickPause now s"
| "page_step s ClickReset = clickReset s"
| "page_step s (PositionArrives lat lon) = deliverPosition (lat, lon) s"
| "page_step s (TimerFires now) = fireTimer now s"

definition page_run :: "session \<Rightarrow> page_event list \<Rightarrow> session" where
  "page_run s es = foldl page_step s es"

text \<open>
  What holds of every state the page reaches: an idle session is not paused, has no
  watch, and offers Start but not Pause; a started session offers Pause but not Start;
  a paused session has no watch; and the alert of \<open>handleStart\<close> has never been shown.
\<close>

definition page_invariant :: "session \<Rightarrow> bool" where
  "page_invariant s \<longleftrightarrow>
     (startTime s = None \<longrightarrow>
        \<not> isPaused s \<and> watchId s = None \<and> \<not> startBtn_disabled s \<and> pauseBtn_disabled s) \<and>
     (startTime s \<noteq> None \<longrightarrow> startBtn_disabled s \<and> \<not> pauseBtn_disabled s) \<and>
     (isPaused s \<longrightarrow> watchId s = None) \<and>
     ''Activity already started. Pause or Reset first.'' \<notin> set (alerts s)"

text \<open>
  A session without its two fields of pause bookkeeping, for statements that say
  nothing about them.
\<close>

definition without_pause_bookkeeping :: "session \<Rightarrow> session" where
  "without_pause_bookkeeping s = s\<lparr>totalPausedDuration := 0, pausedTime := 0\<rparr>"

section \<open>IEEE doubles\<close>

text \<open>
  The session model above computes distances in exact arithmetic. The script computes
  them in IEEE-754 binary64. This section transcribes \<open>calculateDistance\<close> and the
  accumulation in \<open>onPositionUpdate\<close> once more, with every operation rounded.

  A double is a real number (the finite value it denotes) or NaN, written \<open>None\<close>.
  \<open>round_double\<close> rounds a real to the nearest double, ties to the even significand:
  53 significant bits, the least significant bit of a value \<open>x\<close> being worth
  \<open>pow2 (lsb_exponent x)\<close>, which is \<open>pow2 (- 1074)\<close> for subnormal values. Each arithmetic
  operation returns the rounded exact result, and NaN when an operand is NaN.
  \<open>Math.sqrt\<close> of a negative number is NaN. \<open>Math.sin\<close>, \<open>Math.cos\<close> and
  \<open>Math.atan2\<close>, whose accuracy the language leaves to the implementation, are taken
  to return the double nearest to the exact value.

  Not modelled: overflow to an infinity (with latitudes and longitudes in range every
  intermediate value is below 65536) and the sign of zero (no negative zero reaches
  \<open>Math.atan2\<close> here: \<open>a\<close> is a sum whose first term is a square, and \<open>1 - a\<close> is
  the positive zero when \<open>a\<close> is \<open>1\<close>).
\<close>

type_synonym double = "real option"

definition round_even :: "real \<Rightarrow> int" where
  "round_even r =
     (let f = \<lfloor>r\<rfloor>
      in if r - of_int f < 1 / 2 then f
         else if 1 / 2 < r - of_int f then f + 1
         else if even f then f else f + 1)"

definition pow2 :: "int \<Rightarrow> real" where
  "pow2 e = (if 0 \<le> e then 2 ^ nat e else 1 / 2 ^ nat (- e))"

definition lsb_exponent :: "real \<Rightarrow> int" where
  "lsb_exponent x = max \<lfloor>log 2 \<bar>x\<bar>\<rfloor> (- 1022) - 52"

definition round_double :: "real \<Rightarrow> real" where
  "round_double x =
     (if x = 0 then 0
      else of_int (round_even (x / pow2 (lsb_exponent x))) * pow2 (lsb_exponent x))"

text \<open>\<open>Math.PI\<close>: the double nearest to \<open>\<pi>\<close>, 3.141592653589793.\<close>

definition Math_PI_double :: real where
  "Math_PI_double = 884279719003555 / 281474976710656"

fun add_double :: "double \<Rightarrow> double \<Rightarrow> double" where
  "add_double (Some x) (Some y) = Some (round_double (x + y))"
| "add_double _ _ = None"

fun sub_double :: "double \<Rightarrow> double \<Rightarrow> double" where
  "sub_double (Some x) (Some y) = Some (round_double (x - y))"
| "sub_double _ _ = None"

fun mul_double :: "double \<Rightarrow> double \<Rightarrow> double" where
  "mul_double (Some x) (Some y) = Some (round_double (x * y))"
| "mul_double _ _ = None"

text \<open>Division by a literal of the source (180 and 2), which is not zero.\<close>

fun div_double_by :: "double \<Rightarrow> real \<Rightarrow> double" where
  "div_double_by (Some x) n = Some (round_double (x / n))"
| "div_double_by None n = None"

fun Math_sin_double :: "double \<Rightarrow> double" where
  "Math_sin_double (Some x) = Some (round_double (sin x))"
| "Math_sin_double None = None"

fun Math_cos_double :: "double \<Rightarrow> double" where
  "Math_cos_double (Some x) = Some (round_double (cos x))"
| "Math_cos_double None = None"

fun Math_sqrt_double :: "double \<Rightarrow> double" where
  "Math_sqrt_double (Some x) = (if x < 0 then None else Some (round_double (sqrt x)))"
| "Math_sqrt_double None = None"

fun Math_atan2_double :: "double \<Rightarrow> double \<Rightarrow> double" where
  "Math_atan2_double (Some y) (Some x) = Some (round_double (Math_atan2 y x))"
| "Math_atan2_double _ _ = None"

text \<open>
  \<open>calculateDistance\<close>, lines 115 to 125, in doubles. The arguments are doubles that
  are not NaN. Products are taken from the left, as the source's expression is read.
\<close>

definition calculateDistance_double :: "real \<Rightarrow> real \<Rightarrow> real \<Rightarrow> real \<Rightarrow> double" where
  "calculateDistance_double lat1 lon1 lat2 lon2 =
     (let R = Some 6371;
          dLat = div_double_by
                   (mul_double (sub_double (Some lat2) (Some lat1)) (Some Math_PI_double)) 180;
          dLon = div_double_by
                   (mul_double (sub_double (Some lon2) (Some lon1)) (Some Math_PI_double)) 180;
          a = add_double
                (mul_double (Math_sin_double (div_double_by dLat 2))
                            (Math_sin_double (div_double_by dLat 2)))
                (mul_double
                   (mul_double
                      (mul_double
                         (Math_cos_double
                            (div_double_by (mul_double (Some lat1) (Some Math_PI_double)) 180))
                         (Math_cos_double
                            (div_double_by (mul_double (Some lat2) (Some Math_PI_double)) 180)))
                      (Math_sin_double (div_double_by dLon 2)))
                   (Math_sin_double (div_double_by dLon 2)));
          c = mul_double (Some 2)
                (Math_atan2_double (Math_sqrt_double a)
                                   (Math_sqrt_double (sub_double (Some 1) a)))
      in mul_double R c)"

text \<open>
  Lines 52 and 62 to 65 of \<open>onPositionUpdate\<close> on the two variables they change,
  \<open>coordinates\<close> and \<open>distance\<close>, the distance being a double. \<open>handleStart\<close> leaves
  them at \<open>[]\<close> and \<open>0\<close>.
\<close>

definition onPositionUpdate_double ::
  "real \<times> real \<Rightarrow> (real \<times> real) list \<times> double \<Rightarrow> (real \<times> real) list \<times> double" where
  "onPositionUpdate_double newCoord st =
     (let coords = fst st @ [newCoord]
      in if length coords > 1
         then (let prevCoord = coords ! (length coords - 2)
               in (coords,
                   add_double (snd st)
                     (calculateDistance_double (fst prevCoord) (snd prevCoord)
                        (fst newCoord) (snd newCoord))))
         else (coords, snd st))"

lemmas handler_defs = handleStart_def handlePause_def handleReset_def startTracking_def
  stopTracking_def startTimer_def stopTimer_def timerCallback_def onPositionUpdate_def

lemmas example_defs = initial_def tracking_example_def paused_example_def
  resumed_example_def late_pause_example_def

lemmas format_defs = format_duration_def js_rem_def Math_trunc_def

section \<open>Exact arithmetic: the haversine value lies in the unit interval\<close>

lemma sin_half_sq: "sin (x / 2) * sin (x / 2) = (1 - cos x) / (2::real)"
  using cos_double_sin [of "x / 2"] by (simp add: power2_eq_square)

lemma convex_unit:
  fixes A B h :: real
  assumes "0 \<le> A" "A \<le> 1" "0 \<le> B" "B \<le> 1" "0 \<le> h" "h \<le> 1"
  shows "0 \<le> (1 - h) * A + h * B" and "(1 - h) * A + h * B \<le> 1"
proof -
  show "0 \<le> (1 - h) * A + h * B" using assms by simp
  have "(1 - h) * A \<le> (1 - h) * 1" using assms by (intro mult_left_mono) auto
  moreover have "h * B \<le> h * 1" using assms by (intro mult_left_mono) auto
  ultimately show "(1 - h) * A + h * B \<le> 1" by simp
qed

text \<open>
  With \<open>p\<close>, \<open>q\<close> the latitudes and \<open>l\<close> the difference of longitudes in radians, \<open>a\<close> is
  a mixture of \<open>sin\<^sup>2 ((q - p) / 2)\<close> and \<open>cos\<^sup>2 ((p + q) / 2)\<close> with weight
  \<open>sin\<^sup>2 (l / 2)\<close>.
\<close>

lemma hav_decomp:
  fixes p q l :: real
  shows "sin ((q - p) / 2) * sin ((q - p) / 2) + cos p * cos q * sin (l / 2) * sin (l / 2)
       = (1 - (1 - cos l) / 2) * ((1 - cos (q - p)) / 2) +
         ((1 - cos l) / 2) * ((1 + cos (p + q)) / 2)"
proof -
  define S1 where "S1 = sin ((q - p) / 2) * sin ((q - p) / 2)"
  define S2 where "S2 = sin (l / 2) * sin (l / 2)"
  define P where "P = cos p * cos q"
  have s1: "S1 = (1 - cos (q - p)) / 2" unfolding S1_def by (rule sin_half_sq)
  have s2: "S2 = (1 - cos l) / 2" unfolding S2_def by (rule sin_half_sq)
  have pq: "P = (cos (q - p) + cos (p + q)) / 2"
    unfolding P_def by (simp add: cos_diff cos_add)
  have "sin ((q - p) / 2) * sin ((q - p) / 2) + cos p * cos q * sin (l / 2) * sin (l / 2)
      = S1 + P * S2" by (simp add: S1_def S2_def P_def mult.assoc)
  also have "\<dots> = (1 - (1 - cos l) / 2) * ((1 - cos (q - p)) / 2) +
      ((1 - cos l) / 2) * ((1 + cos (p + q)) / 2)"
    unfolding s1 s2 pq by (simp add: field_simps)
  finally show ?thesis .
qed

lemma haversine_a_range:
  "0 \<le> haversine_a lat1 lon1 lat2 lon2 \<and> haversine_a lat1 lon1 lat2 lon2 \<le> 1"
proof -
  define p where "p = lat1 * pi / 180"
  define q where "q = lat2 * pi / 180"
  define l where "l = (lon2 - lon1) * pi / 180"
  define A where "A = (1 - cos (q - p)) / 2"
  define B where "B = (1 + cos (p + q)) / 2"
  define h where "h = (1 - cos l) / 2"
  have dl: "(lat2 - lat1) * pi / 180 = q - p"
    unfolding p_def q_def by (simp add: left_diff_distrib diff_divide_distrib)
  have eq: "haversine_a lat1 lon1 lat2 lon2 = (1 - h) * A + h * B"
    unfolding haversine_a_def dl using hav_decomp [of q p l]
    by (simp add: p_def q_def l_def A_def B_def h_def)
  have A0: "0 \<le> A"
    using cos_le_one [of "q - p"] unfolding A_def by (simp; linarith)
  have A1: "A \<le> 1"
    using cos_ge_minus_one [of "q - p"] unfolding A_def by (simp; linarith)
  have B0: "0 \<le> B"
    using cos_ge_minus_one [of "p + q"] unfolding B_def by (simp; linarith)
  have B1: "B \<le> 1"
    using cos_le_one [of "p + q"] unfolding B_def by (simp; linarith)
  have h0: "0 \<le> h"
    using cos_le_one [of l] unfolding h_def by (simp; linarith)
  have h1: "h \<le> 1"
    using cos_ge_minus_one [of l] unfolding h_def by (simp; linarith)
  show ?thesis unfolding eq using convex_unit [OF A0 A1 B0 B1 h0 h1] by simp
qed

lemma calculateDistance_via_a:
  "calculateDistance lat1 lon1 lat2 lon2 =
     6371 * (2 * Math_atan2 (sqrt (haversine_a lat1 lon1 lat2 lon2))
                            (sqrt (1 - haversine_a lat1 lon1 lat2 lon2)))"
  by (simp add: calculateDistance_def haversine_a_def Let_def)

lemma Math_atan2_nonneg: "0 \<le> y \<Longrightarrow> 0 \<le> x \<Longrightarrow> 0 \<le> Math_atan2 y x"
  by (auto simp: Math_atan2_def)

lemma calculateDistance_nonneg: "0 \<le> calculateDistance lat1 lon1 lat2 lon2"
  using haversine_a_range [of lat1 lon1 lat2 lon2]
  by (simp add: calculateDistance_via_a Math_atan2_nonneg)

lemma calculateDistance_same: "calculateDistance lat lon lat lon = 0"
  by (simp add: calculateDistance_via_a haversine_a_def Math_atan2_def)

lemma haversine_a_sym: "haversine_a lat1 lon1 lat2 lon2 = haversine_a lat2 lon2 lat1 lon1"
proof -
  have a: "(lat1 - lat2) * pi / 180 / 2 = - ((lat2 - lat1) * pi / 180 / 2)"
    by (simp add: left_diff_distrib diff_divide_distrib)
  have b: "(lon1 - lon2) * pi / 180 / 2 = - ((lon2 - lon1) * pi / 180 / 2)"
    by (simp add: left_diff_distrib diff_divide_distrib)
  show ?thesis unfolding haversine_a_def a b sin_minus by (simp add: mult.commute)
qed

section \<open>Exact arithmetic: the running total and the path\<close>

lemma path_length_from_short: "length ps < 2 \<Longrightarrow> path_length_from acc ps = acc"
  by (induction acc ps rule: path_length_from.induct) auto

lemma path_length_from_ge: "acc \<le> path_length_from acc ps"
proof (induction acc ps rule: path_length_from.induct)
  case (1 acc p q ps)
  have "acc \<le> acc + calculateDistance (fst p) (snd p) (fst q) (snd q)"
    using calculateDistance_nonneg [of "fst p" "snd p" "fst q" "snd q"] by simp
  with 1 show ?case by simp
qed simp_all

lemma path_length_from_snoc:
  "path_length_from acc (ps @ [q]) =
     (if ps = [] then acc
      else path_length_from acc ps +
           calculateDistance (fst (last ps)) (snd (last ps)) (fst q) (snd q))"
  by (induction acc ps rule: path_length_from.induct) simp_all

lemma nth_snoc_prev: "ps \<noteq> [] \<Longrightarrow> (ps @ [q]) ! (length (ps @ [q]) - 2) = last ps"
  by (simp add: nth_append last_conv_nth)

lemma onPositionUpdate_coordinates:
  "coordinates (onPositionUpdate c s) = coordinates s @ [c]"
  by (simp add: onPositionUpdate_def Let_def)

lemma onPositionUpdate_distance:
  "distance (onPositionUpdate c s) =
     (if coordinates s = [] then distance s
      else distance s + calculateDistance (fst (last (coordinates s)))
             (snd (last (coordinates s))) (fst c) (snd c))"
proof (cases "coordinates s = []")
  case True
  then show ?thesis by (simp add: onPositionUpdate_def Let_def)
next
  case False
  then show ?thesis
    using nth_snoc_prev [OF False, of c]
    by (simp add: onPositionUpdate_def Let_def)
qed

lemma onPositionUpdate_session_fields:
  "isPaused (onPositionUpdate c s) = isPaused s"
  "startTime (onPositionUpdate c s) = startTime s"
  "pausedTime (onPositionUpdate c s) = pausedTime s"
  "totalPausedDuration (onPositionUpdate c s) = totalPausedDuration s"
  "watchId (onPositionUpdate c s) = watchId s"
  "timerInterval (onPositionUpdate c s) = timerInterval s"
  "alerts (onPositionUpdate c s) = alerts s"
  by (simp_all add: onPositionUpdate_def Let_def)

lemma handleStart_fields:
  "coordinates (handleStart now s) = (if watchId s \<noteq> None then coordinates s else [])"
  "distance (handleStart now s) = (if watchId s \<noteq> None then distance s else 0)"
  by (simp_all add: handleStart_def startTracking_def startTimer_def Let_def)

lemma handlePause_fields:
  "coordinates (handlePause now s) = coordinates s"
  "distance (handlePause now s) = distance s"
  by (simp_all add: handlePause_def startTracking_def stopTracking_def startTimer_def Let_def)

lemma handleReset_fields:
  "coordinates (handleReset s) = []"
  "distance (handleReset s) = 0"
  by (simp_all add: handleReset_def stopTracking_def stopTimer_def Let_def)

lemma timerCallback_fields:
  "coordinates (timerCallback now s) = coordinates s"
  "distance (timerCallback now s) = distance s"
  by (simp_all add: timerCallback_def Let_def split: option.splits)

lemma handle_matches:
  assumes "distance_matches_path s"
  shows "distance_matches_path (handle s e)"
proof (cases e)
  case (Start now)
  with assms show ?thesis
    by (simp add: distance_matches_path_def handleStart_fields path_length_def)
next
  case (Pause now)
  with assms show ?thesis by (simp add: distance_matches_path_def handlePause_fields)
next
  case Reset
  then show ?thesis by (simp add: distance_matches_path_def handleReset_fields path_length_def)
next
  case (Position lat lon)
  with assms show ?thesis
    by (simp add: distance_matches_path_def onPositionUpdate_coordinates
        onPositionUpdate_distance path_length_def path_length_from_snoc)
next
  case (Timer now)
  with assms show ?thesis by (simp add: distance_matches_path_def timerCallback_fields)
qed

lemma run_matches: "distance_matches_path s \<Longrightarrow> distance_matches_path (run s es)"
  unfolding run_def by (induction es arbitrary: s) (simp_all add: handle_matches)

lemma initial_matches: "distance_matches_path (initial geo)"
  by (simp add: distance_matches_path_def initial_def path_length_def)

lemma watch_cleared_by_pause: "\<not> isPaused s \<Longrightarrow> watchId (handlePause now s) = None"
  by (simp add: handlePause_def stopTracking_def Let_def)

lemma watch_cleared_by_reset: "watchId (handleReset s) = None"
  by (simp add: handleReset_def stopTracking_def stopTimer_def Let_def)

section \<open>What holds of every state the page reaches\<close>

lemma clickStart_invariant: "page_invariant s \<Longrightarrow> page_invariant (clickStart now s)"
  by (auto simp: page_invariant_def clickStart_def handleStart_def startTracking_def
      startTimer_def Let_def)

lemma clickPause_invariant: "page_invariant s \<Longrightarrow> page_invariant (clickPause now s)"
  by (auto simp: page_invariant_def clickPause_def handlePause_def startTracking_def
      stopTracking_def startTimer_def Let_def)

lemma clickReset_invariant: "page_invariant s \<Longrightarrow> page_invariant (clickReset s)"
  by (auto simp: page_invariant_def clickReset_def handleReset_def stopTracking_def
      stopTimer_def Let_def)

lemma deliverPosition_invariant: "page_invariant s \<Longrightarrow> page_invariant (deliverPosition c s)"
  by (auto simp: page_invariant_def deliverPosition_def onPositionUpdate_def Let_def)

lemma fireTimer_invariant: "page_invariant s \<Longrightarrow> page_invariant (fireTimer now s)"
  by (auto simp: page_invariant_def fireTimer_def timerCallback_def Let_def
      split: option.splits)

lemma page_step_invariant: "page_invariant s \<Longrightarrow> page_invariant (page_step s e)"
  by (cases e)
    (simp_all add: clickStart_invariant clickPause_invariant clickReset_invariant
      deliverPosition_invariant fireTimer_invariant)

lemma page_run_invariant: "page_invariant s \<Longrightarrow> page_invariant (page_run s es)"
  unfolding page_run_def by (induction es arbitrary: s) (simp_all add: page_step_invariant)

lemma initial_invariant: "page_invariant (initial geo)"
  by (simp add: page_invariant_def initial_def)

lemma reachable_invariant: "page_invariant (page_run (initial geo) es)"
  by (rule page_run_invariant [OF initial_invariant])


lemma paused_example_reached:
  "page_run (initial True) [ClickStart 1000, ClickPause 11000] = paused_example"
  by (simp add: page_run_def clickStart_def clickPause_def handler_defs example_defs Let_def)


lemma paused_example_state: "currentState paused_example = Paused"
  by (simp add: currentState_def handler_defs example_defs Let_def)

text \<open>Pausing and resuming leave the duration text as the last tick wrote it.\<close>

lemma handlePause_keeps_duration_text:
  "durationElement (handlePause now s) = durationElement s"
  by (simp add: handlePause_def startTracking_def stopTracking_def startTimer_def Let_def)

text \<open>
  A click on Pause in a paused session the page has reached: \<open>handlePause\<close> runs its
  resume branch. Stated on every field but the two of pause bookkeeping.
\<close>

lemma resume_click:
  assumes "page_invariant s" and "currentState s = Paused"
  shows "without_pause_bookkeeping (clickPause now s) =
         without_pause_bookkeeping
           (if geolocation s
            then s\<lparr>isPaused := False,
                   watchId := Some (nextWatchId s), nextWatchId := Suc (nextWatchId s),
                   timerInterval := Some (nextTimerId s), nextTimerId := Suc (nextTimerId s)\<rparr>
            else s\<lparr>isPaused := False,
                   alerts := alerts s @ [''Geolocation is not supported by your browser.''],
                   timerInterval := Some (nextTimerId s), nextTimerId := Suc (nextTimerId s)\<rparr>)"
proof -
  from assms(2) have started: "startTime s \<noteq> None" and paused: "isPaused s"
    by (auto simp: currentState_def split: if_splits)
  from assms(1) started have enabled: "\<not> pauseBtn_disabled s"
    by (simp add: page_invariant_def)
  from enabled paused show ?thesis
    by (simp add: clickPause_def handlePause_def startTracking_def startTimer_def
        without_pause_bookkeeping_def Let_def)
qed

lemma idle_pause_click:
  assumes "page_invariant s" and "currentState s = Idle"
  shows "clickPause now s = s"
proof -
  from assms(2) have "startTime s = None" by (auto simp: currentState_def split: if_splits)
  with assms(1) have "pauseBtn_disabled s" by (simp add: page_invariant_def)
  then show ?thesis by (simp add: clickPause_def)
qed

section \<open>Rounding to a double\<close>

lemma round_even_near:
  assumes "\<bar>r - of_int m\<bar> < 1 / 2"
  shows "round_even r = m"
proof (cases "of_int m \<le> r")
  case True
  with assms have "\<lfloor>r\<rfloor> = m" by (intro floor_unique) auto
  with assms True show ?thesis by (simp add: round_even_def)
next
  case False
  with assms have f: "\<lfloor>r\<rfloor> = m - 1" by (intro floor_unique) auto
  from assms False have "1 / 2 < r - of_int (m - 1)" by auto
  with f show ?thesis by (simp add: round_even_def)
qed

lemma pow2_powr: "pow2 e = 2 powr (of_int e)"
  by (simp add: pow2_def powr_int)

lemma pow2_pos: "0 < pow2 e"
  by (simp add: pow2_powr)

lemma floor_log2:
  assumes "pow2 k \<le> \<bar>x\<bar>" and "\<bar>x\<bar> < pow2 (k + 1)"
  shows "\<lfloor>log 2 \<bar>x\<bar>\<rfloor> = k"
proof (rule floor_unique)
  have pos: "0 < \<bar>x\<bar>" using assms(1) pow2_pos [of k] by linarith
  show "of_int k \<le> log 2 \<bar>x\<bar>"
    using assms(1) pos by (simp add: le_log_iff pow2_powr)
  show "log 2 \<bar>x\<bar> < of_int k + 1"
    using assms(2) pos by (simp add: log_less_iff pow2_powr add.commute)
qed

lemma round_double_near:
  assumes "pow2 k \<le> \<bar>x\<bar>" and "\<bar>x\<bar> < pow2 (k + 1)" and "- 1022 \<le> k"
    and "\<bar>x / pow2 (k - 52) - of_int m\<bar> < 1 / 2"
  shows "round_double x = of_int m * pow2 (k - 52)"
proof -
  have nz: "x \<noteq> 0" using assms(1) pow2_pos [of k] by auto
  have e: "lsb_exponent x = k - 52"
    using floor_log2 [OF assms(1,2)] assms(3) by (simp add: lsb_exponent_def)
  show ?thesis
    using nz round_even_near [OF assms(4)] by (simp add: round_double_def e)
qed

lemma pow2_shift_52: "pow2 k = 4503599627370496 * pow2 (k - 52)"
proof -
  have "pow2 k = 2 powr (52 + of_int (k - 52))" by (simp add: pow2_powr)
  also have "\<dots> = 2 powr 52 * 2 powr (of_int (k - 52))" by (rule powr_add)
  also have "2 powr 52 = (4503599627370496 :: real)" by simp
  finally show ?thesis by (simp add: pow2_powr)
qed

lemma pow2_shift_53: "pow2 (k + 1) = 9007199254740992 * pow2 (k - 52)"
proof -
  have "pow2 (k + 1) = 2 powr (of_int k + 1)" by (simp add: pow2_powr)
  also have "\<dots> = 2 powr (of_int k) * 2 powr 1" by (rule powr_add)
  finally have "pow2 (k + 1) = 2 * pow2 k" by (simp add: pow2_powr)
  then show ?thesis using pow2_shift_52 [of k] by simp
qed

lemma round_double_close:
  assumes m: "4503599627370496 < \<bar>m\<bar>" "\<bar>m\<bar> < 9007199254740992" and k: "- 1022 \<le> k"
    and near: "\<bar>y - of_int m * pow2 (k - 52)\<bar> < pow2 (k - 52) / 2"
  shows "round_double y = of_int m * pow2 (k - 52)"
proof -
  define u where "u = pow2 (k - 52)"
  define a where "a = (of_int \<bar>m\<bar> :: real)"
  have u: "0 < u" by (simp add: u_def pow2_pos)
  have pk: "pow2 k = 4503599627370496 * u" unfolding u_def by (rule pow2_shift_52)
  have pk1: "pow2 (k + 1) = 9007199254740992 * u" unfolding u_def by (rule pow2_shift_53)
  have am: "\<bar>of_int m * u\<bar> = a * u" using u by (simp add: abs_mult a_def)
  have lo: "4503599627370497 \<le> a"
  proof -
    have "4503599627370497 \<le> \<bar>m\<bar>" using m(1) by simp
    then have "of_int 4503599627370497 \<le> (of_int \<bar>m\<bar> :: real)" by (simp only: of_int_le_iff)
    then show ?thesis by (simp add: a_def)
  qed
  have hi: "a \<le> 9007199254740991"
  proof -
    have "\<bar>m\<bar> \<le> 9007199254740991" using m(2) by simp
    then have "(of_int \<bar>m\<bar> :: real) \<le> of_int 9007199254740991" by (simp only: of_int_le_iff)
    then show ?thesis by (simp add: a_def)
  qed
  from near have n: "\<bar>y - of_int m * u\<bar> < u / 2" by (simp add: u_def)
  have lo_u: "4503599627370497 * u \<le> a * u"
    using lo u by (intro mult_right_mono) auto
  have hi_u: "a * u \<le> 9007199254740991 * u"
    using hi u by (intro mult_right_mono) auto
  have "\<bar>of_int m * u\<bar> - \<bar>y - of_int m * u\<bar> \<le> \<bar>y\<bar>" by linarith
  then have "a * u - u / 2 < \<bar>y\<bar>" using n am by linarith
  then have b1: "pow2 k \<le> \<bar>y\<bar>" using lo_u u unfolding pk by linarith
  have "\<bar>y\<bar> \<le> \<bar>of_int m * u\<bar> + \<bar>y - of_int m * u\<bar>" by linarith
  then have "\<bar>y\<bar> < a * u + u / 2" using n am by linarith
  then have b2: "\<bar>y\<bar> < pow2 (k + 1)" using hi_u u unfolding pk1 by linarith
  have "y / u - of_int m = (y - of_int m * u) / u" using u by (simp add: field_simps)
  then have "\<bar>y / u - of_int m\<bar> = \<bar>y - of_int m * u\<bar> / u" using u by simp
  also have "\<dots> < 1 / 2" using n u by (simp add: field_simps)
  finally have b3: "\<bar>y / pow2 (k - 52) - of_int m\<bar> < 1 / 2" by (simp add: u_def)
  show ?thesis by (rule round_double_near [OF b1 b2 k b3])
qed

lemma round_double_to_one:
  assumes "1 - 1 / 18014398509481984 < y" and "y \<le> 1"
  shows "round_double y = 1"
proof (cases "y = 1")
  case True
  have "round_double 1 = of_int 4503599627370496 * pow2 (0 - 52)"
    by (rule round_double_near) (simp_all add: pow2_def)
  then show ?thesis using True by (simp add: pow2_def)
next
  case False
  with assms have lt: "y < 1" by simp
  have pos: "\<bar>y\<bar> = y" using assms(1) by simp
  have p1: "pow2 (- 1) = 1 / 2" by (simp add: pow2_def)
  have p0: "pow2 (- 1 + 1) = 1" by (simp add: pow2_def)
  have p53: "pow2 (- 1 - 52) = 1 / 9007199254740992" by (simp add: pow2_def)
  have "round_double y = of_int 9007199254740992 * pow2 (- 1 - 52)"
  proof (rule round_double_near)
    show "pow2 (- 1) \<le> \<bar>y\<bar>" unfolding pos p1 using assms(1) by linarith
    show "\<bar>y\<bar> < pow2 (- 1 + 1)" unfolding pos p0 using lt .
    show "- 1022 \<le> (- 1 :: int)" by simp
    have "y / pow2 (- 1 - 52) = 9007199254740992 * y" unfolding p53 by simp
    moreover have "\<bar>9007199254740992 * y - 9007199254740992\<bar> < 1 / 2"
      using assms(1) lt by linarith
    ultimately show "\<bar>y / pow2 (- 1 - 52) - of_int 9007199254740992\<bar> < 1 / 2" by simp
  qed
  then show ?thesis unfolding p53 by simp
qed

lemma round_double_is:
  assumes "pow2 k \<le> \<bar>x\<bar>" and "\<bar>x\<bar> < pow2 (k + 1)" and "- 1022 \<le> k"
    and "\<bar>x / pow2 (k - 52) - of_int m\<bar> < 1 / 2"
    and "v = of_int m * pow2 (k - 52)"
  shows "round_double x = v"
  using round_double_near [OF assms(1-4)] assms(5) by simp

lemma round_even_minus: "round_even (- r) = - round_even r"
proof (cases "r = of_int \<lfloor>r\<rfloor>")
  case True
  then have "\<lfloor>- r\<rfloor> = - \<lfloor>r\<rfloor>" by (simp add: floor_minus ceiling_altdef)
  with True show ?thesis by (simp add: round_even_def)
next
  case False
  then have f: "\<lfloor>- r\<rfloor> = - \<lfloor>r\<rfloor> - 1" by (simp add: floor_minus ceiling_altdef)
  have lo: "of_int \<lfloor>r\<rfloor> < r" using False of_int_floor_le [of r] by linarith
  have hi: "r < of_int \<lfloor>r\<rfloor> + 1" by linarith
  have par: "even (- \<lfloor>r\<rfloor> - 1) \<longleftrightarrow> odd \<lfloor>r\<rfloor>" by simp
  consider "r - of_int \<lfloor>r\<rfloor> < 1 / 2" | "1 / 2 < r - of_int \<lfloor>r\<rfloor>"
    | "r - of_int \<lfloor>r\<rfloor> = 1 / 2" by linarith
  then show ?thesis
  proof cases
    case 1
    then show ?thesis using f by (simp add: round_even_def Let_def)
  next
    case 2
    then show ?thesis using f by (simp add: round_even_def Let_def)
  next
    case 3
    then show ?thesis using f par by (simp add: round_even_def Let_def)
  qed
qed

lemma round_double_minus: "round_double (- x) = - round_double x"
proof (cases "x = 0")
  case True
  then show ?thesis by (simp add: round_double_def)
next
  case False
  have e: "lsb_exponent (- x) = lsb_exponent x" by (simp add: lsb_exponent_def)
  have "- x / pow2 (lsb_exponent x) = - (x / pow2 (lsb_exponent x))" by simp
  then show ?thesis using False by (simp add: round_double_def e round_even_minus)
qed

text \<open>
  Two familiar roundings: the double written \<open>0.1\<close>, and a tie, half way between
  \<open>1\<close> and the double after it, which goes to the even significand.
\<close>

lemma round_double_tenth: "round_double (1 / 10) = 3602879701896397 / 36028797018963968"
  by (rule round_double_is [where k = "- 4" and m = 7205759403792794])
    (simp_all add: pow2_def)

lemma round_double_tie_to_even:
  "round_double (9007199254740993 / 9007199254740992) = 1"
proof -
  have e: "lsb_exponent (9007199254740993 / 9007199254740992) = - 52"
    using floor_log2 [of 0 "9007199254740993 / 9007199254740992"]
    by (simp add: lsb_exponent_def pow2_def)
  have q: "9007199254740993 / 9007199254740992 / pow2 (- 52) = 9007199254740993 / 2"
    by (simp add: pow2_def)
  have f: "\<lfloor>(9007199254740993 / 2 :: real)\<rfloor> = 4503599627370496"
    by (rule floor_unique) simp_all
  have r: "round_even (9007199254740993 / 2) = 4503599627370496"
    by (simp add: round_even_def Let_def f)
  have "round_double (9007199254740993 / 9007199254740992) =
      of_int 4503599627370496 * pow2 (- 52)"
    by (simp only: round_double_def e q r) simp
  then show ?thesis by (simp add: pow2_def)
qed

section \<open>The distance in doubles is symmetric\<close>

text \<open>
  Exchanging the two points negates \<open>dLat\<close> and \<open>dLon\<close> exactly, rounding and the
  sine are odd, and the product of the cosines commutes: the double returned, NaN
  included, is the same in both orders.
\<close>

lemma sub_double_swap:
  "sub_double (Some y) (Some x) = map_option uminus (sub_double (Some x) (Some y))"
proof -
  have "y - x = - (x - y)" by simp
  then show ?thesis by (simp only: sub_double.simps option.map round_double_minus)
qed

lemma mul_double_commute: "mul_double x y = mul_double y x"
  by (cases x; cases y) (simp_all add: mult.commute)

lemma mul_double_minus_left:
  "mul_double (map_option uminus x) y = map_option uminus (mul_double x y)"
  by (cases x; cases y) (simp_all add: round_double_minus)

lemma mul_double_minus_right:
  "mul_double x (map_option uminus y) = map_option uminus (mul_double x y)"
  by (cases x; cases y) (simp_all add: round_double_minus)

lemma div_double_by_minus:
  "div_double_by (map_option uminus x) n = map_option uminus (div_double_by x n)"
  by (cases x) (simp_all add: round_double_minus)

lemma Math_sin_double_minus:
  "Math_sin_double (map_option uminus x) = map_option uminus (Math_sin_double x)"
  by (cases x) (simp_all add: round_double_minus)

lemma minus_minus_double: "map_option uminus (map_option uminus x) = (x :: double)"
  by (cases x) simp_all

lemma double_distance_symmetric:
  "calculateDistance_double lat1 lon1 lat2 lon2 = calculateDistance_double lat2 lon2 lat1 lon1"
  unfolding calculateDistance_double_def Let_def
    sub_double_swap [of lat1 lat2] sub_double_swap [of lon1 lon2]
    mul_double_minus_left div_double_by_minus Math_sin_double_minus
    mul_double_minus_right minus_minus_double
  by (simp only: mul_double_commute
      [of "Math_cos_double (div_double_by (mul_double (Some lat2) (Some Math_PI_double)) 180)"])

section \<open>Taylor bounds for the sine and the cosine\<close>

lemma sin_near:
  assumes "\<bar>(\<Sum>m<n. sin_coeff m * x ^ m) - c\<bar> + inverse (fact n) * \<bar>x\<bar> ^ n < e"
  shows "\<bar>sin x - c\<bar> < e"
  using assms Maclaurin_sin_bound [of x n] by linarith

lemma Maclaurin_cos_bound:
  "\<bar>cos x - (\<Sum>m<n. cos_coeff m * x ^ m)\<bar> \<le> inverse (fact n) * \<bar>x\<bar> ^ n"
proof -
  obtain t where eq:
    "cos x = (\<Sum>m<n. cos_coeff m * x ^ m) + (cos (t + 1 / 2 * real n * pi) / fact n) * x ^ n"
    using Maclaurin_cos_expansion [of x n] by blast
  define r where "r = (cos (t + 1 / 2 * real n * pi) / fact n) * x ^ n"
  have "cos x - (\<Sum>m<n. cos_coeff m * x ^ m) = r" using eq unfolding r_def by linarith
  then have "\<bar>cos x - (\<Sum>m<n. cos_coeff m * x ^ m)\<bar> = \<bar>r\<bar>" by (rule arg_cong)
  also have "\<bar>r\<bar> = \<bar>cos (t + 1 / 2 * real n * pi)\<bar> * (inverse (fact n) * \<bar>x\<bar> ^ n)"
    by (simp add: r_def abs_mult power_abs inverse_eq_divide)
  also have "\<dots> \<le> 1 * (inverse (fact n) * \<bar>x\<bar> ^ n)"
    by (intro mult_right_mono) auto
  finally show ?thesis by simp
qed

lemma cos_near:
  assumes "\<bar>(\<Sum>m<n. cos_coeff m * x ^ m) - c\<bar> + inverse (fact n) * \<bar>x\<bar> ^ n < e"
  shows "\<bar>cos x - c\<bar> < e"
  using assms Maclaurin_cos_bound [of x n] by linarith

lemma sin_poly_14:
  "(\<Sum>m<14. sin_coeff m * x ^ m) =
     x - x ^ 3 / 6 + x ^ 5 / 120 - x ^ 7 / 5040 + x ^ 9 / 362880 - x ^ 11 / 39916800
       + x ^ 13 / 6227020800"
  by (simp add: eval_nat_numeral sin_coeff_Suc cos_coeff_Suc)

lemma cos_poly_14:
  "(\<Sum>m<14. cos_coeff m * x ^ m) =
     1 - x ^ 2 / 2 + x ^ 4 / 24 - x ^ 6 / 720 + x ^ 8 / 40320 - x ^ 10 / 3628800
       + x ^ 12 / 479001600"
  by (simp add: eval_nat_numeral sin_coeff_Suc cos_coeff_Suc)

lemma fact_14: "fact 14 = (87178291200 :: real)"
  by (simp add: fact_numeral)

lemma sine_dLat_half_bound:
  "\<bar>sin (- (5030569068109113 / 36028797018963968) :: real) - (- (5014239404989977 / 36028797018963968))\<bar>
     < 1 / 36028797018963968 / 2"
  apply (rule sin_near [where n = 14])
  apply (simp only: sin_poly_14 fact_14)
  apply (simp add: power_divide)
  done

lemma sin_poly_26:
  "(\<Sum>m<26. sin_coeff m * x ^ m) =
     x - x ^ 3 / 6 + x ^ 5 / 120 - x ^ 7 / 5040 + x ^ 9 / 362880 - x ^ 11 / 39916800 + x ^ 13 / 6227020800 - x ^ 15 / 1307674368000 + x ^ 17 / 355687428096000 - x ^ 19 / 121645100408832000 + x ^ 21 / 51090942171709440000 - x ^ 23 / 25852016738884976640000 + x ^ 25 / 15511210043330985984000000"
  by (simp add: eval_nat_numeral sin_coeff_Suc cos_coeff_Suc)

lemma fact_26: "fact 26 = (403291461126605635584000000 :: real)"
  by (simp add: fact_numeral)

lemma sine_dLon_half_bound:
  "\<bar>sin (884279719003555 / 562949953421312 :: real) - 1\<bar> < 1 / 18014398509481984"
  apply (rule sin_near [where n = 26])
  apply (simp only: sin_poly_26 fact_26)
  apply (simp add: power_divide)
  done

section \<open>The distance between (8, 0) and (-8, 180) in doubles\<close>

text \<open>
  The two points are in range and nearly antipodal. Each lemma below is one rounding
  of the source's computation at this input; \<open>k\<close> is the binary exponent of the exact
  result and \<open>m\<close> the integer significand of the double it rounds to.
\<close>

lemma dLat_difference:
  "round_double (- 8 - 8) =
     - 16"
  by (rule round_double_is [where k = "4" and m = "-4503599627370496"])
    (simp_all add: pow2_def Math_PI_double_def)

lemma dLat_times_pi:
  "round_double (- 16 * Math_PI_double) =
     - (884279719003555 / 17592186044416)"
  by (rule round_double_is [where k = "5" and m = "-7074237752028440"])
    (simp_all add: pow2_def Math_PI_double_def)

lemma dLat_value:
  "round_double (- (884279719003555 / 17592186044416) / 180) =
     - (5030569068109113 / 18014398509481984)"
  by (rule round_double_is [where k = "-2" and m = "-5030569068109113"])
    (simp_all add: pow2_def Math_PI_double_def)

lemma dLat_half:
  "round_double (- (5030569068109113 / 18014398509481984) / 2) =
     - (5030569068109113 / 36028797018963968)"
  by (rule round_double_is [where k = "-3" and m = "-5030569068109113"])
    (simp_all add: pow2_def Math_PI_double_def)

lemma dLon_difference:
  "round_double (180 - 0) =
     180"
  by (rule round_double_is [where k = "7" and m = "6333186975989760"])
    (simp_all add: pow2_def Math_PI_double_def)

lemma dLon_times_pi:
  "round_double (180 * Math_PI_double) =
     4974073419394997 / 8796093022208"
  by (rule round_double_is [where k = "9" and m = "4974073419394997"])
    (simp_all add: pow2_def Math_PI_double_def)

lemma dLon_value:
  "round_double (4974073419394997 / 8796093022208 / 180) =
     884279719003555 / 281474976710656"
  by (rule round_double_is [where k = "1" and m = "7074237752028440"])
    (simp_all add: pow2_def Math_PI_double_def)

lemma dLon_half:
  "round_double (884279719003555 / 281474976710656 / 2) =
     884279719003555 / 562949953421312"
  by (rule round_double_is [where k = "0" and m = "7074237752028440"])
    (simp_all add: pow2_def Math_PI_double_def)

lemma lat1_times_pi:
  "round_double (8 * Math_PI_double) =
     884279719003555 / 35184372088832"
  by (rule round_double_is [where k = "4" and m = "7074237752028440"])
    (simp_all add: pow2_def Math_PI_double_def)

lemma lat1_radians:
  "round_double (884279719003555 / 35184372088832 / 180) =
     5030569068109113 / 36028797018963968"
  by (rule round_double_is [where k = "-3" and m = "5030569068109113"])
    (simp_all add: pow2_def Math_PI_double_def)

lemma lat2_times_pi:
  "round_double (- 8 * Math_PI_double) =
     - (884279719003555 / 35184372088832)"
  by (rule round_double_is [where k = "4" and m = "-7074237752028440"])
    (simp_all add: pow2_def Math_PI_double_def)

lemma lat2_radians:
  "round_double (- (884279719003555 / 35184372088832) / 180) =
     - (5030569068109113 / 36028797018963968)"
  by (rule round_double_is [where k = "-3" and m = "-5030569068109113"])
    (simp_all add: pow2_def Math_PI_double_def)

lemma sine_squared:
  "round_double (- (5014239404989977 / 36028797018963968) * (- (5014239404989977 / 36028797018963968))) =
     1395694493897217 / 72057594037927936"
  by (rule round_double_is [where k = "-6" and m = "5582777975588868"])
    (simp_all add: pow2_def Math_PI_double_def)

lemma cosine_product:
  "round_double (4459770905381437 / 4503599627370496 * (4459770905381437 / 4503599627370496)) =
     8832737443003841 / 9007199254740992"
  by (rule round_double_is [where k = "-1" and m = "8832737443003841"])
    (simp_all add: pow2_def Math_PI_double_def)

lemma cosine_product_times_one:
  "round_double (8832737443003841 / 9007199254740992 * 1) =
     8832737443003841 / 9007199254740992"
  by (rule round_double_is [where k = "-1" and m = "8832737443003841"])
    (simp_all add: pow2_def Math_PI_double_def)

lemma a_sum:
  "round_double (1395694493897217 / 72057594037927936 + 8832737443003841 / 9007199254740992) =
     4503599627370497 / 4503599627370496"
  by (rule round_double_is [where k = "0" and m = "4503599627370497"])
    (simp_all add: pow2_def Math_PI_double_def)

lemma one_minus_a:
  "round_double (1 - 4503599627370497 / 4503599627370496) =
     - (1 / 4503599627370496)"
  by (rule round_double_is [where k = "-52" and m = "-4503599627370496"])
    (simp_all add: pow2_def Math_PI_double_def)


lemma round_sin_dLat:
  "round_double (sin (- (5030569068109113 / 36028797018963968))) =
     - (5014239404989977 / 36028797018963968)"
proof -
  have "round_double (sin (- (5030569068109113 / 36028797018963968))) =
      of_int (- 5014239404989977) * pow2 (- 3 - 52)"
  proof (rule round_double_close)
    show "\<bar>sin (- (5030569068109113 / 36028797018963968)) -
        of_int (- 5014239404989977) * pow2 (- 3 - 52)\<bar> < pow2 (- 3 - 52) / 2"
      using sine_dLat_half_bound by (simp add: pow2_def)
  qed simp_all
  then show ?thesis by (simp add: pow2_def)
qed

lemma cosine_lat_bound:
  "\<bar>cos (5030569068109113 / 36028797018963968 :: real) -
      4459770905381437 / 4503599627370496\<bar> < 1 / 9007199254740992 / 2"
  apply (rule cos_near [where n = 14])
  apply (simp only: cos_poly_14 fact_14)
  apply (simp add: power_divide)
  done

lemma round_cos_lat1:
  "round_double (cos (5030569068109113 / 36028797018963968)) =
     4459770905381437 / 4503599627370496"
proof -
  have "round_double (cos (5030569068109113 / 36028797018963968)) =
      of_int 8919541810762874 * pow2 (- 1 - 52)"
  proof (rule round_double_close)
    show "\<bar>cos (5030569068109113 / 36028797018963968) -
        of_int 8919541810762874 * pow2 (- 1 - 52)\<bar> < pow2 (- 1 - 52) / 2"
      using cosine_lat_bound by (simp add: pow2_def)
  qed simp_all
  then show ?thesis by (simp add: pow2_def)
qed

lemma round_cos_lat2:
  "round_double (cos (- (5030569068109113 / 36028797018963968))) =
     4459770905381437 / 4503599627370496"
  using round_cos_lat1 by simp

lemma round_sin_dLon:
  "round_double (sin (884279719003555 / 562949953421312)) = 1"
proof (rule round_double_to_one)
  show "1 - 1 / 18014398509481984 < sin (884279719003555 / 562949953421312 :: real)"
    using sine_dLon_half_bound by linarith
  show "sin (884279719003555 / 562949953421312 :: real) \<le> 1" by (rule sin_le_one)
qed

lemma haversine_a_at_failing_input:
  "add_double
     (mul_double
        (Math_sin_double (div_double_by (div_double_by
           (mul_double (sub_double (Some (- 8)) (Some 8)) (Some Math_PI_double)) 180) 2))
        (Math_sin_double (div_double_by (div_double_by
           (mul_double (sub_double (Some (- 8)) (Some 8)) (Some Math_PI_double)) 180) 2)))
     (mul_double
        (mul_double
           (mul_double
              (Math_cos_double (div_double_by (mul_double (Some 8) (Some Math_PI_double)) 180))
              (Math_cos_double
                 (div_double_by (mul_double (Some (- 8)) (Some Math_PI_double)) 180)))
           (Math_sin_double (div_double_by (div_double_by
              (mul_double (sub_double (Some 180) (Some 0)) (Some Math_PI_double)) 180) 2)))
        (Math_sin_double (div_double_by (div_double_by
           (mul_double (sub_double (Some 180) (Some 0)) (Some Math_PI_double)) 180) 2)))
   = Some (4503599627370497 / 4503599627370496)"
  by (simp only: add_double.simps sub_double.simps mul_double.simps div_double_by.simps
      Math_sin_double.simps Math_cos_double.simps
      dLat_difference dLat_times_pi dLat_value dLat_half
      dLon_difference dLon_times_pi dLon_value dLon_half
      lat1_times_pi lat1_radians lat2_times_pi lat2_radians
      sine_squared cosine_product cosine_product_times_one a_sum
      round_sin_dLat round_cos_lat1 round_cos_lat2 round_sin_dLon)

lemma double_distance_of_failing_input: "calculateDistance_double 8 0 (- 8) 180 = None"
  unfolding calculateDistance_double_def Let_def haversine_a_at_failing_input
  by (simp only: sub_double.simps one_minus_a, simp)

section \<open>Claims about the distance function\<close>

text \<open>
  In exact arithmetic the value of the haversine formula is not negative, and the
  distance from a coordinate to itself is \<open>0\<close>. Between (8, 0) and (-8, 180) it is
  half the circumference.
\<close>

lemma exact_distance_nonneg_zero_on_equal:
  "0 \<le> calculateDistance lat1 lon1 lat2 lon2 \<and> calculateDistance lat1 lon1 lat1 lon1 = 0"
  by (simp add: calculateDistance_nonneg calculateDistance_same)

lemma exact_distance_of_failing_input: "calculateDistance 8 0 (- 8) 180 = 6371 * pi"
proof -
  have p: "(- 8 - 8) * pi / 180 / 2 = - (8 * pi / 180)" by simp
  have q: "(180 - 0) * pi / 180 / 2 = pi / 2" by simp
  have "haversine_a 8 0 (- 8) 180 =
      sin (8 * pi / 180) * sin (8 * pi / 180) + cos (8 * pi / 180) * cos (8 * pi / 180)"
    unfolding haversine_a_def p q by simp
  also have "\<dots> = 1"
    using sin_cos_squared_add [of "8 * pi / 180"] by (simp add: power2_eq_square)
  finally have a: "haversine_a 8 0 (- 8) 180 = 1" .
  show ?thesis by (simp add: calculateDistance_via_a a Math_atan2_def)
qed

text \<open>In doubles too the distance from a coordinate to itself is \<open>0\<close>.\<close>

lemma double_distance_zero_on_equal: "calculateDistance_double lat lon lat lon = Some 0"
proof -
  have one: "round_double 1 = 1"
    by (rule round_double_is [where k = 0 and m = 4503599627370496]) (simp_all add: pow2_def)
  have zero: "round_double 0 = 0" by (simp add: round_double_def)
  show ?thesis
    by (simp add: calculateDistance_double_def Let_def zero one Math_atan2_def)
qed

text \<open>
  C8, evaluated on the code. Both (8, 0) and (-8, 180) are in range. In doubles the
  squared sine of half the latitude difference is 0.019369152030840567, the product of
  the cosines 0.9806308479691596 and the sine of half the longitude difference 1, so
  \<open>a\<close> is 1.0000000000000002, the double after 1. Then \<open>1 - a\<close> is negative,
  \<open>Math.sqrt(1 - a)\<close> is NaN and so is the distance returned: it is not a
  non-negative number. The source has no clamp of \<open>a\<close> to \<open>[0, 1]\<close>.
\<close>

theorem C8_distance_in_doubles_is_NaN:
  "valid_coordinate 8 0 \<and> valid_coordinate (- 8) 180 \<and>
   calculateDistance_double 8 0 (- 8) 180 = None"
proof -
  have v: "valid_coordinate 8 0 \<and> valid_coordinate (- 8) 180"
    by (simp add: valid_coordinate_def)
  from v double_distance_of_failing_input show ?thesis by simp
qed

text \<open>
  C10. The distance function is symmetric: exchanging the two coordinates gives the
  same distance. (Exact real arithmetic.)
\<close>

theorem C10_distance_symmetric:
  "calculateDistance lat1 lon1 lat2 lon2 = calculateDistance lat2 lon2 lat1 lon1"
  by (simp add: calculateDistance_via_a haversine_a_sym [of lat1 lon1 lat2 lon2])

section \<open>Claims about the accumulated distance\<close>

text \<open>
  In exact arithmetic, after every sequence of calls of the script's functions from the
  initial state, \<open>distance\<close> is the sum of the distances between consecutive elements
  of \<open>coordinates\<close> in arrival order, it is not negative, and it is \<open>0\<close> whenever
  \<open>coordinates\<close> has fewer than two elements.
\<close>

lemma exact_distance_is_path_length:
  "distance (run (initial geo) es) = path_length (coordinates (run (initial geo) es)) \<and>
   0 \<le> distance (run (initial geo) es) \<and>
   (length (coordinates (run (initial geo) es)) < 2 \<longrightarrow> distance (run (initial geo) es) = 0)"
proof -
  define s where "s = run (initial geo) es"
  have m: "distance s = path_length (coordinates s)"
    using run_matches [OF initial_matches, of geo es]
    by (simp add: s_def distance_matches_path_def)
  have n: "0 \<le> path_length (coordinates s)"
    using path_length_from_ge [of 0 "coordinates s"] by (simp add: path_length_def)
  have z: "length (coordinates s) < 2 \<longrightarrow> path_length (coordinates s) = 0"
    by (simp add: path_length_def path_length_from_short)
  from m n z show ?thesis unfolding s_def by simp
qed

text \<open>
  C2, evaluated on the code. After start, the positions (8, 0) and (-8, 180) arrive.
  The first leaves \<open>distance\<close> at \<open>0\<close>; the second adds the distance between the two,
  which in doubles is NaN, so \<open>distance\<close> is NaN: not a non-negative number, and not
  a sum of distances. Every later update adds to NaN and leaves NaN, whatever the
  coordinates, until reset or start.
\<close>

theorem C2_total_in_doubles_becomes_NaN:
  "snd (onPositionUpdate_double (8, 0) ([], Some 0)) = Some 0 \<and>
   snd (onPositionUpdate_double (- 8, 180) (onPositionUpdate_double (8, 0) ([], Some 0))) = None \<and>
   snd (onPositionUpdate_double c (coords, None)) = None"
  by (simp add: onPositionUpdate_double_def Let_def double_distance_of_failing_input)

text \<open>
  C9, as the code has it. \<open>onPositionUpdate\<close> checks no range: every coordinate, in
  range or not, is appended to \<open>coordinates\<close>, its distance from the previous
  coordinate (when there is one) is added to \<open>distance\<close>, and nothing is signalled.
\<close>

theorem C9_every_coordinate_accepted:
  "coordinates (onPositionUpdate (lat, lon) s) = coordinates s @ [(lat, lon)] \<and>
   distance (onPositionUpdate (lat, lon) s) =
     (if coordinates s = [] then distance s
      else distance s + calculateDistance (fst (last (coordinates s)))
             (snd (last (coordinates s))) lat lon) \<and>
   alerts (onPositionUpdate (lat, lon) s) = alerts s"
  by (simp add: onPositionUpdate_coordinates onPositionUpdate_distance
      onPositionUpdate_session_fields)

text \<open>
  C9 as stated fails: latitude 91 and longitude 200 are out of range, and the update
  on a tracking session stores the coordinate and signals nothing.
\<close>

theorem C9_counterexample:
  "\<not> valid_coordinate 91 200 \<and>
   coordinates tracking_example = [] \<and>
   coordinates (onPositionUpdate (91, 200) tracking_example) = [(91, 200)] \<and>
   coordinates (onPositionUpdate (91, 200) tracking_example) \<noteq> coordinates tracking_example \<and>
   alerts (onPositionUpdate (91, 200) tracking_example) = alerts tracking_example"
  by (simp add: valid_coordinate_def handler_defs example_defs Let_def)

section \<open>The paused duration on every run\<close>

text \<open>
  \<open>startTimer\<close> is called from \<open>handleStart\<close>, after \<open>isPaused\<close> was set to false, and
  from the resume branch of \<open>handlePause\<close>, which is taken when \<open>isPaused\<close> has just
  become false. Its branch that adds to \<open>totalPausedDuration\<close> asks for \<open>isPaused\<close>, so
  it is never taken: on every run from the initial state the paused duration is \<open>0\<close>.
\<close>

lemma handle_keeps_no_paused_duration:
  "totalPausedDuration s = 0 \<Longrightarrow> totalPausedDuration (handle s e) = 0"
  by (cases e)
    (simp_all add: handler_defs Let_def split: option.splits)

lemma run_keeps_no_paused_duration:
  "totalPausedDuration s = 0 \<Longrightarrow> totalPausedDuration (run s es) = 0"
  unfolding run_def
  by (induction es arbitrary: s) (simp_all add: handle_keeps_no_paused_duration)

lemma paused_duration_always_zero: "totalPausedDuration (run (initial geo) es) = 0"
  by (rule run_keeps_no_paused_duration) (simp add: initial_def)

section \<open>Claims about the session commands\<close>

text \<open>
  C1, evaluated on the code. Start at 1000, pause at 11000, resume at 16000: the
  resume leaves \<open>totalPausedDuration\<close> at \<open>0\<close> and \<open>pausedTime\<close> at 11000, because
  \<open>handlePause\<close> has already cleared \<open>isPaused\<close> when \<open>startTimer\<close> tests it. The tick
  at 21000 then shows 20 seconds, not the 15 seconds that exclude the pause.
\<close>

theorem C1_resume_keeps_paused_time_in_elapsed:
  "startTime resumed_example = Some 1000 \<and>
   isPaused resumed_example = False \<and>
   totalPausedDuration resumed_example = 0 \<and>
   pausedTime resumed_example = 11000 \<and>
   durationElement (timerCallback 21000 resumed_example) = HMS 0 0 20 \<and>
   format_duration (21000 - 1000 - (16000 - 11000)) = HMS 0 0 15 \<and>
   durationElement (timerCallback 21000 resumed_example) \<noteq>
     format_duration (21000 - 1000 - (16000 - 11000))"
  by (simp add: handler_defs example_defs format_defs Let_def)






text \<open>
  C5, as the code has it. The pause command never signals a condition. On an idle
  session the page has reached, Pause is disabled and a click on it leaves the whole
  session unchanged. On a paused one the same button is the resume: the click clears
  \<open>isPaused\<close>, installs a new timer and asks for a new position watch (or, in a
  browser without geolocation, alerts that it is not supported), and leaves every
  other field as it was. The two fields of pause bookkeeping, \<open>totalPausedDuration\<close>
  and \<open>pausedTime\<close>, are left out of this statement.
\<close>

theorem C5_pause_click_when_not_tracking:
  "(currentState (page_run (initial geo) es) = Idle \<longrightarrow>
      clickPause now (page_run (initial geo) es) = page_run (initial geo) es) \<and>
   (currentState (page_run (initial geo) es) = Paused \<longrightarrow>
      without_pause_bookkeeping (clickPause now (page_run (initial geo) es)) =
      without_pause_bookkeeping
        (if geolocation (page_run (initial geo) es)
         then (page_run (initial geo) es)
                \<lparr>isPaused := False,
                 watchId := Some (nextWatchId (page_run (initial geo) es)),
                 nextWatchId := Suc (nextWatchId (page_run (initial geo) es)),
                 timerInterval := Some (nextTimerId (page_run (initial geo) es)),
                 nextTimerId := Suc (nextTimerId (page_run (initial geo) es))\<rparr>
         else (page_run (initial geo) es)
                \<lparr>isPaused := False,
                 alerts := alerts (page_run (initial geo) es) @
                   [''Geolocation is not supported by your browser.''],
                 timerInterval := Some (nextTimerId (page_run (initial geo) es)),
                 nextTimerId := Suc (nextTimerId (page_run (initial geo) es))\<rparr>))"
  using idle_pause_click [OF reachable_invariant, of geo es now]
    resume_click [OF reachable_invariant, of geo es now]
  by blast

theorem C5_witness:
  "currentState (page_run (initial True) []) = Idle \<and>
   clickPause 5000 (page_run (initial True) []) = page_run (initial True) [] \<and>
   currentState (page_run (initial True) [ClickStart 1000, ClickPause 11000]) = Paused \<and>
   isPaused (clickPause 16000 (page_run (initial True) [ClickStart 1000, ClickPause 11000]))
     = False \<and>
   alerts (clickPause 16000 (page_run (initial True) [ClickStart 1000, ClickPause 11000]))
     = []"
proof -
  have i: "currentState (page_run (initial True) []) = Idle"
    by (simp add: page_run_def currentState_def initial_def)
  have p: "currentState (page_run (initial True) [ClickStart 1000, ClickPause 11000]) = Paused"
    by (simp add: paused_example_reached paused_example_state)
  have g: "geolocation paused_example" "alerts paused_example = []"
    by (simp_all add: handler_defs example_defs Let_def)
  have "without_pause_bookkeeping (clickPause 16000 paused_example) =
      without_pause_bookkeeping
        (paused_example\<lparr>isPaused := False,
           watchId := Some (nextWatchId paused_example),
           nextWatchId := Suc (nextWatchId paused_example),
           timerInterval := Some (nextTimerId paused_example),
           nextTimerId := Suc (nextTimerId paused_example)\<rparr>)"
    using p g(1)
      C5_pause_click_when_not_tracking [of True "[ClickStart 1000, ClickPause 11000]" 16000]
    by (simp add: paused_example_reached)
  then have r: "isPaused (clickPause 16000 paused_example) = False \<and>
      alerts (clickPause 16000 paused_example) = []"
    using g(2) by (auto simp: without_pause_bookkeeping_def dest: arg_cong [where f = isPaused]
        arg_cong [where f = alerts])
  have c: "clickPause 5000 (page_run (initial True) []) = page_run (initial True) []"
    using i C5_pause_click_when_not_tracking [of True "[]" 5000] by simp
  from i p r c show ?thesis by (simp add: paused_example_reached)
qed

text \<open>
  C5 as stated fails. The session started at 1000 and paused at 11000 is not tracking,
  and the pause command at 16000 signals nothing and changes the state: the session is
  tracking again. On the idle session the click changes nothing, and signals nothing
  either.
\<close>

theorem C5_counterexample:
  "page_run (initial True) [ClickStart 1000, ClickPause 11000] = paused_example \<and>
   currentState paused_example = Paused \<and>
   alerts paused_example = [] \<and>
   alerts (clickPause 16000 paused_example) = [] \<and>
   currentState (clickPause 16000 paused_example) = Tracking \<and>
   clickPause 16000 paused_example \<noteq> paused_example \<and>
   currentState (initial True) = Idle \<and>
   alerts (clickPause 5000 (initial True)) = []"
proof -
  have p: "isPaused paused_example" "\<not> isPaused (clickPause 16000 paused_example)"
    by (simp_all add: clickPause_def handler_defs example_defs Let_def)
  then have d: "clickPause 16000 paused_example \<noteq> paused_example" by auto
  have a: "alerts paused_example = []" "alerts (clickPause 16000 paused_example) = []"
    "alerts (clickPause 5000 (initial True)) = []"
    by (simp_all add: clickPause_def handler_defs example_defs Let_def)
  have t: "currentState (clickPause 16000 paused_example) = Tracking"
    by (simp add: currentState_def clickPause_def handler_defs example_defs Let_def)
  have i: "currentState (initial True) = Idle"
    by (simp add: currentState_def initial_def)
  from paused_example_reached paused_example_state a d t i show ?thesis by simp
qed




text \<open>
  C7. From every state, reset gives the initial state again: no start instant, no
  pause instant, no paused duration, distance \<open>0\<close>, no coordinates, not paused, watch
  and timer cleared, buttons as initially; only the duration text is \<open>'-'\<close>, and the
  alert log and the platform's handle counters are as they were. A timer tick after
  the reset computes no duration and leaves the text \<open>'-'\<close>.
\<close>

theorem C7_reset_returns_to_initial:
  "handleReset s =
     (initial (geolocation s))\<lparr>durationElement := Dash, alerts := alerts s,
        nextWatchId := nextWatchId s, nextTimerId := nextTimerId s\<rparr> \<and>
   startTime (handleReset s) = None \<and>
   pausedTime (handleReset s) = 0 \<and>
   totalPausedDuration (handleReset s) = 0 \<and>
   distance (handleReset s) = 0 \<and>
   coordinates (handleReset s) = [] \<and>
   isPaused (handleReset s) = False \<and>
   watchId (handleReset s) = None \<and>
   timerInterval (handleReset s) = None \<and>
   timerCallback now (handleReset s) = handleReset s \<and>
   durationElement (fireTimer now (handleReset s)) = Dash"
  by (simp add: handleReset_def stopTracking_def stopTimer_def initial_def
      timerCallback_def fireTimer_def Let_def)

end
